theory Spec2Isabelle
  imports Main "HOL-Library.Sublist"
begin

section \<open>The RDS module of terraform-aws-rds (src/index.ts)\<close>

text \<open>
  The module is one constructor, \<open>RdsModule.constructor\<close>. It reads a configuration
  object and adds resource constructs to its own scope: a caller-identity data source, a
  static timestamp, a security group, a subnet group and then either an Aurora cluster with
  its instances or one standalone database instance, each followed by an output.

  The embedding keeps the constructor's order. The scope \<open>this\<close> is the list of the
  constructs created so far, in creation order; \<open>new X(this, id, config)\<close> appends
  \<open>X id config\<close> to it. Optional fields of the configuration are options
  (\<open>None\<close> is \<open>undefined\<close>). A TypeScript \<open>number\<close> that counts or sizes
  something is an \<open>int\<close>: the model covers the integral values, where the arithmetic of
  the loop counter is exact. Objects with string keys are maps.

  The classes of the provider packages are not part of this repository. What the constructor
  passes to them is recorded field by field; what it reads back from a created resource
  (\<open>auroraCluster.id\<close>, \<open>dbSubnetGroup.name\<close>, \<open>caller.userId\<close>, ...) is the
  value of an attribute getter, taken as the parameter \<open>attr\<close> of the model.
\<close>

subsection \<open>Configuration (interface RdsModuleConfig, lines 12-29)\<close>

record VpcModule =
  vpc_id :: string
  vpc_cidr :: string
  vpc_ipv6_cidr :: string
  database_subnet_ids :: "string list option"

record RdsModuleConfig =
  username :: string
  password :: string
  maintenanceWindow :: string
  backupWindow :: string
  backupRetentionPeriod :: int
  dbName :: string
  engine :: string
  engineVersion :: string
  instanceClass :: "string option"
  isAurora :: bool
  numberOfInstances :: "int option"
  allocatedStorage :: "int option"
  serviceName :: string
  env :: string
  tags :: "(string \<rightharpoonup> string) option"
  vpc :: VpcModule

subsection \<open>What the constructor passes to each resource\<close>

text \<open>
  One record per object literal of the source, with the fields the source sets. The field
  names carry a prefix (\<open>sg_\<close>, \<open>dsg_\<close>, \<open>rc_\<close>, \<open>rci_\<close>, \<open>db_\<close>),
  since several resources have fields of the same name.
\<close>

record SecurityGroupIngress =
  in_protocol :: string
  in_fromPort :: int
  in_toPort :: int
  in_cidrBlocks :: "string list"
  in_ipv6CidrBlocks :: "string list"
  in_description :: string

record SecurityGroupEgress =
  eg_protocol :: string
  eg_fromPort :: int
  eg_toPort :: int
  eg_cidrBlocks :: "string list"
  eg_ipv6CidrBlocks :: "string list"

record SecurityGroupConfig =
  sg_name :: string
  sg_description :: string
  sg_vpcId :: string
  sg_ingress :: "SecurityGroupIngress list"
  sg_egress :: "SecurityGroupEgress list"
  sg_tags :: "string \<rightharpoonup> string"

record DbSubnetGroupConfig =
  dsg_name :: string
  dsg_subnetIds :: "string list option"
  dsg_tags :: "string \<rightharpoonup> string"

record RdsClusterConfig =
  rc_clusterIdentifier :: string
  rc_engine :: string
  rc_engineVersion :: string
  rc_databaseName :: string
  rc_masterUsername :: string
  rc_masterPassword :: string
  rc_backupRetentionPeriod :: int
  rc_preferredBackupWindow :: string
  rc_preferredMaintenanceWindow :: string
  rc_skipFinalSnapshot :: bool
  rc_storageType :: string
  rc_storageEncrypted :: bool
  rc_dbSubnetGroupName :: string
  rc_vpcSecurityGroupIds :: "string list"
  rc_tags :: "string \<rightharpoonup> string"

record RdsClusterInstanceConfig =
  rci_clusterIdentifier :: string
  rci_engine :: string
  rci_instanceClass :: string
  rci_dbSubnetGroupName :: string
  rci_tags :: "string \<rightharpoonup> string"

record DbInstanceConfig =
  db_identifier :: string
  db_engine :: string
  db_engineVersion :: string
  db_instanceClass :: "string option"
  db_allocatedStorage :: "int option"
  db_dbName :: string
  db_username :: string
  db_password :: string
  db_backupRetentionPeriod :: int
  db_backupWindow :: string
  db_maintenanceWindow :: string
  db_skipFinalSnapshot :: bool
  db_dbSubnetGroupName :: string
  db_vpcSecurityGroupIds :: "string list"
  db_storageEncrypted :: bool
  db_storageType :: string
  db_multiAz :: bool
  db_tags :: "string \<rightharpoonup> string"

text \<open>A construct in the module's scope: its class, its construct id and its configuration.\<close>

datatype construct =
    DataAwsCallerIdentity string
  | StaticResource string
  | SecurityGroup string SecurityGroupConfig
  | DbSubnetGroup string DbSubnetGroupConfig
  | RdsCluster string RdsClusterConfig
  | RdsClusterInstance string RdsClusterInstanceConfig
  | DbInstance string DbInstanceConfig
  | TerraformOutput string string

text \<open>
  The value of an attribute getter on a created construct, such as \<open>auroraCluster.endpoint\<close>:
  a function of the construct and the attribute's name, supplied by the provider packages.
\<close>

type_synonym provider = "construct \<Rightarrow> string \<Rightarrow> string"

text \<open>
  The module object after construction: the four public fields of the class (lines 32-35;
  \<open>username\<close> and \<open>password\<close> are named \<open>module_username\<close> and
  \<open>module_password\<close> here, apart from the configuration's fields) and \<open>node\<close>, the
  constructs added to the module's scope, in creation order.
\<close>

record RdsModule =
  rdsEndpoint :: string
  module_username :: string
  module_password :: string
  securityGroup :: construct
  node :: "construct list"

subsection \<open>JavaScript operators used by the constructor\<close>

text \<open>\<open>s.includes(sub)\<close>: \<open>sub\<close> occurs in \<open>s\<close> at some position.\<close>

fun includes_str :: "string \<Rightarrow> string \<Rightarrow> bool" where
  "includes_str [] sub = (sub = [])"
| "includes_str (c # cs) sub = (prefix sub (c # cs) \<or> includes_str cs sub)"

text \<open>
  \<open>x || d\<close> on an optional number and on an optional string: \<open>undefined\<close>, \<open>0\<close>
  and the empty string are falsy, and then the value is \<open>d\<close>.
\<close>

definition or_number :: "int option \<Rightarrow> int \<Rightarrow> int" where
  "or_number x d = (case x of None \<Rightarrow> d | Some n \<Rightarrow> if n = 0 then d else n)"

definition or_string :: "string option \<Rightarrow> string \<Rightarrow> string" where
  "or_string x d = (case x of None \<Rightarrow> d | Some s \<Rightarrow> if s = [] then d else s)"

text \<open>The decimal digits of a counter, as a template literal \<open>${i}\<close> prints it.\<close>

fun string_of_nat :: "nat \<Rightarrow> string" where
  "string_of_nat n =
     (if n < 10 then [''0123456789'' ! n]
      else string_of_nat (n div 10) @ [''0123456789'' ! (n mod 10)])"

declare string_of_nat.simps [simp del]

definition number_toString :: "int \<Rightarrow> string" where
  "number_toString i = (if i < 0 then ''-'' @ string_of_nat (nat (- i)) else string_of_nat (nat i))"

subsection \<open>The constructor (lines 37-171)\<close>

text \<open>The object literal \<open>defaultTags\<close> (lines 61-68).\<close>

definition defaultTags :: "provider \<Rightarrow> string \<Rightarrow> string \<Rightarrow> construct \<Rightarrow> construct \<Rightarrow> (string \<rightharpoonup> string)" where
  "defaultTags attr serviceName' env' caller timeStatic =
     [''Name'' \<mapsto> serviceName' @ ''-'' @ env',
      ''Service'' \<mapsto> serviceName',
      ''ENV'' \<mapsto> env',
      ''Provisioner'' \<mapsto> ''CDKTF'',
      ''Provisioned By'' \<mapsto> attr caller ''userId'',
      ''Provisioned Date'' \<mapsto> attr timeStatic ''id'']"

text \<open>
  The loop that creates the Aurora instances (lines 127-135): \<open>i\<close> counts up from its
  start while \<open>i < numInstances\<close>, and each round appends one instance to the scope.
  The object spread \<open>{ ...defaultTags, ...tags }\<close> is the map \<open>defaultTags ++ tags\<close>,
  where the right operand wins.
\<close>

function createInstances ::
  "provider \<Rightarrow> construct \<Rightarrow> construct \<Rightarrow> string option \<Rightarrow> (string \<rightharpoonup> string) \<Rightarrow>
   (string \<rightharpoonup> string) \<Rightarrow> int \<Rightarrow> int \<Rightarrow> construct list \<Rightarrow> construct list" where
  "createInstances attr auroraCluster dbSubnetGroup instanceClass' defaultTags' tags' numInstances i this =
     (if i < numInstances then
        createInstances attr auroraCluster dbSubnetGroup instanceClass' defaultTags' tags' numInstances (i + 1)
          (this @ [RdsClusterInstance (''rds-cluster-instance-'' @ number_toString i)
             \<lparr> rci_clusterIdentifier = attr auroraCluster ''id'',
               rci_engine = attr auroraCluster ''engine'',
               rci_instanceClass = or_string instanceClass' ''db.t4g.medium'',
               rci_dbSubnetGroupName = attr dbSubnetGroup ''name'',
               rci_tags = defaultTags' ++ tags' \<rparr>])
      else this)"
  by pat_completeness auto
termination
  by (relation "measure (\<lambda>(attr, auroraCluster, dbSubnetGroup, instanceClass', defaultTags', tags', numInstances, i, this).
        nat (numInstances - i))") auto

declare createInstances.simps [simp del]

definition new_RdsModule :: "provider \<Rightarrow> RdsModuleConfig \<Rightarrow> RdsModule" where
  "new_RdsModule attr config =
    (let username = username config;
         password = password config;
         maintenanceWindow = maintenanceWindow config;
         backupWindow = backupWindow config;
         backupRetentionPeriod = backupRetentionPeriod config;
         dbName = dbName config;
         engine = engine config;
         engineVersion = engineVersion config;
         instanceClass = instanceClass config;
         isAurora = isAurora config;
         numberOfInstances = numberOfInstances config;
         allocatedStorage = allocatedStorage config;
         serviceName = serviceName config;
         env = env config;
         tags = (case tags config of None \<Rightarrow> Map.empty | Some t \<Rightarrow> t);
         vpc = vpc config;
         caller = DataAwsCallerIdentity ''caller'';
         timeStatic = StaticResource ''timestamp'';
         this = [caller, timeStatic];
         defaultTags = defaultTags attr serviceName env caller timeStatic;
         securityGroup = SecurityGroup ''rds-sg''
           \<lparr> sg_name = serviceName @ ''-'' @ env @ ''-rds-sg'',
             sg_description = ''Security group for '' @ serviceName @ '' RDS'',
             sg_vpcId = vpc_id vpc,
             sg_ingress =
               [\<lparr> in_protocol = ''tcp'',
                  in_fromPort = (if includes_str engine ''postgres'' then 5432 else 3306),
                  in_toPort = (if includes_str engine ''postgres'' then 5432 else 3306),
                  in_cidrBlocks = [vpc_cidr vpc],
                  in_ipv6CidrBlocks = [vpc_ipv6_cidr vpc],
                  in_description =
                    ''Allow '' @ (if includes_str engine ''postgres'' then ''PostgreSQL'' else ''MySQL'')
                      @ '' traffic'' \<rparr>],
             sg_egress =
               [\<lparr> eg_protocol = ''-1'',
                  eg_fromPort = 0,
                  eg_toPort = 0,
                  eg_cidrBlocks = [''0.0.0.0/0''],
                  eg_ipv6CidrBlocks = [''::/0''] \<rparr>],
             sg_tags = defaultTags ++ tags \<rparr>;
         this = this @ [securityGroup];
         dbSubnetGroup = DbSubnetGroup ''db-subnet-group''
           \<lparr> dsg_name = serviceName @ ''-'' @ env @ ''-db-subnet-group'',
             dsg_subnetIds = database_subnet_ids vpc,
             dsg_tags = defaultTags ++ tags \<rparr>;
         this = this @ [dbSubnetGroup]
     in
       if isAurora then
         (let auroraCluster = RdsCluster ''rds-cluster''
                \<lparr> rc_clusterIdentifier = serviceName @ ''-'' @ env @ ''-aurora-cluster'',
                  rc_engine = engine,
                  rc_engineVersion = engineVersion,
                  rc_databaseName = dbName,
                  rc_masterUsername = username,
                  rc_masterPassword = password,
                  rc_backupRetentionPeriod = backupRetentionPeriod,
                  rc_preferredBackupWindow = backupWindow,
                  rc_preferredMaintenanceWindow = maintenanceWindow,
                  rc_skipFinalSnapshot = True,
                  rc_storageType = ''gp3'',
                  rc_storageEncrypted = True,
                  rc_dbSubnetGroupName = attr dbSubnetGroup ''name'',
                  rc_vpcSecurityGroupIds = [attr securityGroup ''id''],
                  rc_tags = defaultTags ++ tags \<rparr>;
              this = this @ [auroraCluster];
              numInstances = or_number numberOfInstances 1;
              this = createInstances attr auroraCluster dbSubnetGroup instanceClass defaultTags tags
                       numInstances 0 this;
              this = this @ [TerraformOutput ''aurora_cluster_endpoint'' (attr auroraCluster ''endpoint'')]
          in \<lparr> rdsEndpoint = attr auroraCluster ''endpoint'',
               module_username = username,
               module_password = password,
               securityGroup = securityGroup,
               node = this \<rparr>)
       else
         (let rdsInstance = DbInstance ''rds-instance''
                \<lparr> db_identifier = serviceName @ ''-'' @ env @ ''-rds-instance'',
                  db_engine = engine,
                  db_engineVersion = engineVersion,
                  db_instanceClass = instanceClass,
                  db_allocatedStorage = allocatedStorage,
                  db_dbName = dbName,
                  db_username = username,
                  db_password = password,
                  db_backupRetentionPeriod = backupRetentionPeriod,
                  db_backupWindow = backupWindow,
                  db_maintenanceWindow = maintenanceWindow,
                  db_skipFinalSnapshot = True,
                  db_dbSubnetGroupName = attr dbSubnetGroup ''name'',
                  db_vpcSecurityGroupIds = [attr securityGroup ''id''],
                  db_storageEncrypted = True,
                  db_storageType = ''gp3'',
                  db_multiAz = (case numberOfInstances of None \<Rightarrow> False | Some n \<Rightarrow> n > 1),
                  db_tags = defaultTags ++ tags \<rparr>;
              this = this @ [rdsInstance];
              this = this @ [TerraformOutput ''rds_instance_endpoint'' (attr rdsInstance ''endpoint'')]
          in \<lparr> rdsEndpoint = attr rdsInstance ''endpoint'',
               module_username = username,
               module_password = password,
               securityGroup = securityGroup,
               node = this \<rparr>))"

subsection \<open>Observations on the constructed scope\<close>

text \<open>
  The configuration of a construct of one class, and \<open>None\<close> for a construct of another
  class; \<open>List.map_filter\<close> with one of them lists the configurations of the constructs
  of that class, in creation order.
\<close>

fun asSecurityGroup :: "construct \<Rightarrow> SecurityGroupConfig option" where
  "asSecurityGroup (SecurityGroup i cfg) = Some cfg"
| "asSecurityGroup _ = None"

fun asRdsCluster :: "construct \<Rightarrow> RdsClusterConfig option" where
  "asRdsCluster (RdsCluster i cfg) = Some cfg"
| "asRdsCluster _ = None"

fun asRdsClusterInstance :: "construct \<Rightarrow> RdsClusterInstanceConfig option" where
  "asRdsClusterInstance (RdsClusterInstance i cfg) = Some cfg"
| "asRdsClusterInstance _ = None"

fun asDbInstance :: "construct \<Rightarrow> DbInstanceConfig option" where
  "asDbInstance (DbInstance i cfg) = Some cfg"
| "asDbInstance _ = None"

fun asTerraformOutput :: "construct \<Rightarrow> (string \<times> string) option" where
  "asTerraformOutput (TerraformOutput i v) = Some (i, v)"
| "asTerraformOutput _ = None"

text \<open>The constructs of the three database classes.\<close>

fun isRdsCluster :: "construct \<Rightarrow> bool" where
  "isRdsCluster (RdsCluster i cfg) = True"
| "isRdsCluster _ = False"

fun isRdsClusterInstance :: "construct \<Rightarrow> bool" where
  "isRdsClusterInstance (RdsClusterInstance i cfg) = True"
| "isRdsClusterInstance _ = False"

fun isDbInstance :: "construct \<Rightarrow> bool" where
  "isDbInstance (DbInstance i cfg) = True"
| "isDbInstance _ = False"

text \<open>The construct id (the second argument of \<open>new X(this, id, config)\<close>).\<close>

fun constructId :: "construct \<Rightarrow> string" where
  "constructId (DataAwsCallerIdentity i) = i"
| "constructId (StaticResource i) = i"
| "constructId (SecurityGroup i cfg) = i"
| "constructId (DbSubnetGroup i cfg) = i"
| "constructId (RdsCluster i cfg) = i"
| "constructId (RdsClusterInstance i cfg) = i"
| "constructId (DbInstance i cfg) = i"
| "constructId (TerraformOutput i v) = i"

text \<open>The tags a construct carries; the data source, the timestamp and the outputs carry none.\<close>

fun tagsOf :: "construct \<Rightarrow> (string \<rightharpoonup> string) option" where
  "tagsOf (DataAwsCallerIdentity i) = None"
| "tagsOf (StaticResource i) = None"
| "tagsOf (SecurityGroup i cfg) = Some (sg_tags cfg)"
| "tagsOf (DbSubnetGroup i cfg) = Some (dsg_tags cfg)"
| "tagsOf (RdsCluster i cfg) = Some (rc_tags cfg)"
| "tagsOf (RdsClusterInstance i cfg) = Some (rci_tags cfg)"
| "tagsOf (DbInstance i cfg) = Some (db_tags cfg)"
| "tagsOf (TerraformOutput i v) = None"

text \<open>
  The caller's tags after the destructuring default \<open>tags = {}\<close> (line 54), and the two
  constructs whose attributes the default tags read (lines 58-59).
\<close>

definition callerTags :: "RdsModuleConfig \<Rightarrow> (string \<rightharpoonup> string)" where
  "callerTags config = (case tags config of None \<Rightarrow> Map.empty | Some t \<Rightarrow> t)"

definition moduleDefaultTags :: "provider \<Rightarrow> RdsModuleConfig \<Rightarrow> (string \<rightharpoonup> string)" where
  "moduleDefaultTags attr config =
     defaultTags attr (serviceName config) (env config)
       (DataAwsCallerIdentity ''caller'') (StaticResource ''timestamp'')"

text \<open>The instance that round \<open>k\<close> of the loop creates (lines 128-134).\<close>

definition clusterInstance ::
  "provider \<Rightarrow> construct \<Rightarrow> construct \<Rightarrow> string option \<Rightarrow> (string \<rightharpoonup> string) \<Rightarrow>
   (string \<rightharpoonup> string) \<Rightarrow> int \<Rightarrow> construct" where
  "clusterInstance attr auroraCluster dbSubnetGroup instanceClass' defaultTags' tags' k =
     RdsClusterInstance (''rds-cluster-instance-'' @ number_toString k)
       \<lparr> rci_clusterIdentifier = attr auroraCluster ''id'',
         rci_engine = attr auroraCluster ''engine'',
         rci_instanceClass = or_string instanceClass' ''db.t4g.medium'',
         rci_dbSubnetGroupName = attr dbSubnetGroup ''name'',
         rci_tags = defaultTags' ++ tags' \<rparr>"

subsection \<open>Example inputs\<close>

text \<open>An attribute getter that names the construct and the attribute, as a reference would.\<close>

definition ref_attr :: provider where
  "ref_attr r a = constructId r @ ''.'' @ a"

definition example_vpc :: VpcModule where
  "example_vpc = \<lparr> vpc_id = ''vpc-1'', vpc_cidr = ''10.0.0.0/16'', vpc_ipv6_cidr = ''2001:db8::/56'',
     database_subnet_ids = Some [''subnet-a'', ''subnet-b''] \<rparr>"

definition cfg_aurora :: RdsModuleConfig where
  "cfg_aurora = \<lparr> username = ''admin'', password = ''secret'',
     maintenanceWindow = ''Mon:00:00-Mon:03:00'', backupWindow = ''03:00-06:00'',
     backupRetentionPeriod = 7, dbName = ''app'', engine = ''aurora-postgresql'',
     engineVersion = ''14.6'', instanceClass = Some ''db.r6g.large'', isAurora = True,
     numberOfInstances = Some 3, allocatedStorage = None, serviceName = ''billing'', env = ''dev'',
     tags = Some [''Service'' \<mapsto> ''ledger'', ''Team'' \<mapsto> ''data''], vpc = example_vpc \<rparr>"

definition cfg_standalone :: RdsModuleConfig where
  "cfg_standalone = \<lparr> username = ''admin'', password = ''secret'',
     maintenanceWindow = ''Mon:00:00-Mon:03:00'', backupWindow = ''03:00-06:00'',
     backupRetentionPeriod = 7, dbName = ''app'', engine = ''mysql'',
     engineVersion = ''8.0'', instanceClass = Some ''db.t3.small'', isAurora = False,
     numberOfInstances = Some 2, allocatedStorage = Some 20, serviceName = ''billing'', env = ''dev'',
     tags = None, vpc = example_vpc \<rparr>"

text \<open>Variants: a count of zero, an empty sizing class, and no sizing class.\<close>

definition cfg_aurora_zero :: RdsModuleConfig where
  "cfg_aurora_zero = cfg_aurora\<lparr> numberOfInstances := Some 0 \<rparr>"

definition cfg_aurora_emptyclass :: RdsModuleConfig where
  "cfg_aurora_emptyclass = cfg_aurora\<lparr> instanceClass := Some [], numberOfInstances := None \<rparr>"

definition cfg_standalone_noclass :: RdsModuleConfig where
  "cfg_standalone_noclass = cfg_standalone\<lparr> instanceClass := None \<rparr>"

section \<open>Auxiliary facts\<close>

text \<open>\<open>includes_str\<close> is the contiguous-sublist relation of the library, so the
  port rule can be stated without the recursion.\<close>

lemma includes_str_sublist: "includes_str s sub \<longleftrightarrow> sublist sub s"
  by (induction s) (auto simp: sublist_Cons_right)

text \<open>The loop appends the instances of the rounds \<open>i, i + 1, ..., numInstances - 1\<close>.\<close>

lemma createInstances_eq:
  "createInstances attr cl sn ic dt t n i this =
     this @ map (clusterInstance attr cl sn ic dt t) [i..n - 1]"
proof (induction attr cl sn ic dt t n i this rule: createInstances.induct)
  case (1 attr cl sn ic dt t n i this)
  show ?case
  proof (cases "i < n")
    case True
    then have "[i..n - 1] = i # [i + 1..n - 1]" by (simp add: upto_rec1)
    with True 1 show ?thesis
      by (subst createInstances.simps) (simp add: clusterInstance_def)
  next
    case False
    then show ?thesis by (subst createInstances.simps) simp
  qed
qed

lemma map_filter_append:
  "List.map_filter f (xs @ ys) = List.map_filter f xs @ List.map_filter f ys"
  by (simp add: List.map_filter_def)

lemma map_filter_instances:
  "List.map_filter asRdsClusterInstance (map (clusterInstance attr cl sn ic dt t) ks) =
     map (\<lambda>k. \<lparr> rci_clusterIdentifier = attr cl ''id'',
         rci_engine = attr cl ''engine'',
         rci_instanceClass = or_string ic ''db.t4g.medium'',
         rci_dbSubnetGroupName = attr sn ''name'',
         rci_tags = dt ++ t \<rparr>) ks"
  by (induction ks) (simp_all add: clusterInstance_def)

lemma map_filter_other_instances:
  "List.map_filter asRdsCluster (map (clusterInstance attr cl sn ic dt t) ks) = []"
  "List.map_filter asDbInstance (map (clusterInstance attr cl sn ic dt t) ks) = []"
  "List.map_filter asSecurityGroup (map (clusterInstance attr cl sn ic dt t) ks) = []"
  "List.map_filter asTerraformOutput (map (clusterInstance attr cl sn ic dt t) ks) = []"
  by (induction ks) (simp_all add: clusterInstance_def)

lemma map_filter_tags_instances:
  "List.map_filter tagsOf (map (clusterInstance attr cl sn ic dt t) ks) = map (\<lambda>k. dt ++ t) ks"
  by (induction ks) (simp_all add: clusterInstance_def)

lemma filter_instances:
  "filter isRdsClusterInstance (map (clusterInstance attr cl sn ic dt t) ks) =
     map (clusterInstance attr cl sn ic dt t) ks"
  "filter isRdsCluster (map (clusterInstance attr cl sn ic dt t) ks) = []"
  "filter isDbInstance (map (clusterInstance attr cl sn ic dt t) ks) = []"
  by (induction ks) (simp_all add: clusterInstance_def)

lemma constructId_clusterInstance:
  "constructId (clusterInstance attr cl sn ic dt t k) = ''rds-cluster-instance-'' @ number_toString k"
  by (simp add: clusterInstance_def)

lemmas scope_simps = new_RdsModule_def Let_def createInstances_eq map_filter_append
  map_filter_instances map_filter_other_instances map_filter_tags_instances filter_instances

lemmas example_simps = cfg_aurora_def cfg_standalone_def example_vpc_def cfg_aurora_zero_def
  cfg_aurora_emptyclass_def cfg_standalone_noclass_def

section \<open>The claims\<close>

subsection \<open>Number of cluster instances\<close>

text \<open>
  What the loop produces, for every count: with \<open>isAurora\<close> set, the scope holds
  \<open>K\<close> cluster instances for a supplied count \<open>K \<ge> 1\<close> and one when no count is
  supplied; a negative count gives none, and a count of 0 gives one, since
  \<open>numberOfInstances || 1\<close> on line 126 takes 0 for an absent value. The scope holds
  exactly one cluster, and every instance has the \<open>id\<close> attribute of that cluster as its
  \<open>clusterIdentifier\<close>.
\<close>

lemma created_instance_count:
  assumes "isAurora config"
  shows "length (List.map_filter asRdsClusterInstance (node (new_RdsModule attr config))) =
           (case numberOfInstances config of None \<Rightarrow> 1 | Some K \<Rightarrow> if K = 0 then 1 else nat K)
         \<and> (\<exists>cl. filter isRdsCluster (node (new_RdsModule attr config)) = [cl]
               \<and> list_all (\<lambda>cfg. rci_clusterIdentifier cfg = attr cl ''id'')
                    (List.map_filter asRdsClusterInstance (node (new_RdsModule attr config))))"
  using assms
  by (simp add: scope_simps or_number_def list_all_iff split: option.splits)

lemma created_instance_count_example:
  "isAurora cfg_aurora \<and> numberOfInstances cfg_aurora = Some 3
   \<and> length (List.map_filter asRdsClusterInstance (node (new_RdsModule ref_attr cfg_aurora))) = 3"
proof -
  have a: "isAurora cfg_aurora" and n: "numberOfInstances cfg_aurora = Some 3"
    by (simp_all add: cfg_aurora_def)
  from created_instance_count [OF a, of ref_attr] n a show ?thesis by simp
qed

text \<open>
  C1. With \<open>isAurora\<close> set, the number of cluster instances is the configured count
  \<open>K\<close> for every \<open>K \<ge> 0\<close>, and 1 when no count is supplied. The constructor misses
  this at \<open>K = 0\<close>: the field is documented as the number of instances in the cluster
  (line 23), yet for the configuration \<open>cfg_aurora_zero\<close>, whose count is 0, the scope
  holds one cluster instance and not none.
\<close>

theorem cluster_instance_count_zero:
  "isAurora cfg_aurora_zero \<and> numberOfInstances cfg_aurora_zero = Some 0
   \<and> length (List.map_filter asRdsClusterInstance (node (new_RdsModule ref_attr cfg_aurora_zero))) = 1
   \<and> length (List.map_filter asRdsClusterInstance (node (new_RdsModule ref_attr cfg_aurora_zero))) \<noteq> nat 0"
  by (simp add: scope_simps clusterInstance_def or_number_def example_simps)

subsection \<open>The standalone instance\<close>

text \<open>
  C2. With \<open>isAurora\<close> unset, the scope holds exactly one standalone database instance, and
  its \<open>multiAz\<close> field is true if and only if an instance count is supplied and is greater
  than 1.
\<close>

theorem standalone_single_instance_multiAz:
  assumes "\<not> isAurora config"
  shows "\<exists>cfg. List.map_filter asDbInstance (node (new_RdsModule attr config)) = [cfg]
           \<and> (db_multiAz cfg \<longleftrightarrow> (\<exists>n. numberOfInstances config = Some n \<and> 1 < n))"
  using assms
  by (simp add: scope_simps split: option.splits)

theorem standalone_single_instance_multiAz_witness:
  "\<not> isAurora cfg_standalone
   \<and> (\<exists>cfg. List.map_filter asDbInstance (node (new_RdsModule ref_attr cfg_standalone)) = [cfg]
           \<and> db_multiAz cfg)"
proof -
  have a: "\<not> isAurora cfg_standalone" and n: "numberOfInstances cfg_standalone = Some 2"
    by (simp_all add: cfg_standalone_def)
  from standalone_single_instance_multiAz [OF a, of ref_attr] n a show ?thesis by simp
qed

subsection \<open>The ingress port\<close>

text \<open>
  C3. The security group has one ingress rule, and its \<open>fromPort\<close> and \<open>toPort\<close> are both
  5432 when the engine string contains \<open>postgres\<close> as a contiguous substring, and both 3306
  otherwise.
\<close>

theorem ingress_port_by_engine:
  "\<exists>sgc ing. List.map_filter asSecurityGroup (node (new_RdsModule attr config)) = [sgc]
      \<and> sg_ingress sgc = [ing]
      \<and> in_fromPort ing = (if sublist ''postgres'' (engine config) then 5432 else 3306)
      \<and> in_toPort ing = (if sublist ''postgres'' (engine config) then 5432 else 3306)"
  by (simp add: scope_simps includes_str_sublist)

theorem ingress_port_by_engine_witness:
  "\<exists>sgc ing. List.map_filter asSecurityGroup (node (new_RdsModule ref_attr cfg_aurora)) = [sgc]
      \<and> sg_ingress sgc = [ing] \<and> in_fromPort ing = 5432 \<and> in_toPort ing = 5432"
proof -
  have "includes_str (engine cfg_aurora) ''postgres''"
    by (simp add: cfg_aurora_def)
  then have "sublist ''postgres'' (engine cfg_aurora)"
    by (simp only: includes_str_sublist)
  with ingress_port_by_engine [of ref_attr cfg_aurora] show ?thesis by simp
qed

subsection \<open>A standalone configuration without a sizing class\<close>

text \<open>
  C4 (as amended). With \<open>isAurora\<close> unset and \<open>instanceClass\<close> omitted, the constructor
  has no failure path: the non-null assertion \<open>instanceClass!\<close> is erased at run time, and
  the scope holds exactly one standalone database instance, whose \<open>instanceClass\<close> field is
  left undefined.
\<close>

theorem standalone_without_instanceClass:
  assumes "\<not> isAurora config" and "instanceClass config = None"
  shows "\<exists>cfg. List.map_filter asDbInstance (node (new_RdsModule attr config)) = [cfg]
           \<and> db_instanceClass cfg = None"
  using assms
  by (simp add: scope_simps)

theorem standalone_without_instanceClass_witness:
  "\<not> isAurora cfg_standalone_noclass \<and> instanceClass cfg_standalone_noclass = None
   \<and> (\<exists>cfg. List.map_filter asDbInstance (node (new_RdsModule ref_attr cfg_standalone_noclass)) = [cfg]
           \<and> db_instanceClass cfg = None)"
proof -
  have a: "\<not> isAurora cfg_standalone_noclass" and n: "instanceClass cfg_standalone_noclass = None"
    by (simp_all add: example_simps)
  from standalone_without_instanceClass [OF a n, of ref_attr] n a show ?thesis by simp
qed

text \<open>The claim as written asks for no database resource; the instance is in the scope.\<close>

theorem standalone_without_instanceClass_counterexample:
  "\<not> isAurora cfg_standalone_noclass \<and> instanceClass cfg_standalone_noclass = None
   \<and> map constructId (filter isDbInstance (node (new_RdsModule ref_attr cfg_standalone_noclass)))
       = [''rds-instance'']"
  by (simp add: scope_simps example_simps)

subsection \<open>The tag merge\<close>

text \<open>
  C5. The tags of the security group (line 96) are the merge of the default tags with the
  caller's tags: a key the caller supplies has the caller's value, whether or not the
  defaults have it too, and every other key has what the defaults give it (its default
  value, or nothing).
\<close>

theorem tag_merge_caller_wins:
  "\<exists>i sgc. securityGroup (new_RdsModule attr config) = SecurityGroup i sgc
      \<and> (\<forall>k v. callerTags config k = Some v \<longrightarrow> sg_tags sgc k = Some v)
      \<and> (\<forall>k. callerTags config k = None \<longrightarrow> sg_tags sgc k = moduleDefaultTags attr config k)"
  by (simp add: new_RdsModule_def Let_def callerTags_def moduleDefaultTags_def map_add_def
      split: option.splits)

theorem tag_merge_caller_wins_witness:
  "\<exists>i sgc. securityGroup (new_RdsModule ref_attr cfg_aurora) = SecurityGroup i sgc
      \<and> sg_tags sgc ''Service'' = Some ''ledger''
      \<and> sg_tags sgc ''Team'' = Some ''data''
      \<and> sg_tags sgc ''ENV'' = Some ''dev''"
proof -
  from tag_merge_caller_wins [of ref_attr cfg_aurora] obtain i sgc where
    sg: "securityGroup (new_RdsModule ref_attr cfg_aurora) = SecurityGroup i sgc" and
    win: "\<And>k v. callerTags cfg_aurora k = Some v \<Longrightarrow> sg_tags sgc k = Some v" and
    keep: "\<And>k. callerTags cfg_aurora k = None \<Longrightarrow> sg_tags sgc k = moduleDefaultTags ref_attr cfg_aurora k"
    by blast
  have "callerTags cfg_aurora ''Service'' = Some ''ledger''"
    and "callerTags cfg_aurora ''Team'' = Some ''data''"
    and e: "callerTags cfg_aurora ''ENV'' = None"
    by (simp_all add: callerTags_def cfg_aurora_def)
  then have "sg_tags sgc ''Service'' = Some ''ledger''" and "sg_tags sgc ''Team'' = Some ''data''"
    by (simp_all add: win)
  moreover have "sg_tags sgc ''ENV'' = Some ''dev''"
    using keep [OF e] by (simp add: moduleDefaultTags_def defaultTags_def cfg_aurora_def)
  ultimately show ?thesis using sg by simp
qed

subsection \<open>Storage settings\<close>

text \<open>
  C6. In both branches the database resource of the scope (the one cluster when
  \<open>isAurora\<close> is set, the one standalone instance otherwise) has storage type \<open>gp3\<close>,
  storage encryption on and the final snapshot skipped, whatever the configuration.
\<close>

theorem database_storage_settings:
  "list_all (\<lambda>cfg. rc_storageType cfg = ''gp3'' \<and> rc_storageEncrypted cfg \<and> rc_skipFinalSnapshot cfg)
     (List.map_filter asRdsCluster (node (new_RdsModule attr config)))
   \<and> list_all (\<lambda>cfg. db_storageType cfg = ''gp3'' \<and> db_storageEncrypted cfg \<and> db_skipFinalSnapshot cfg)
     (List.map_filter asDbInstance (node (new_RdsModule attr config)))
   \<and> length (List.map_filter asRdsCluster (node (new_RdsModule attr config))) = (if isAurora config then 1 else 0)
   \<and> length (List.map_filter asDbInstance (node (new_RdsModule attr config))) = (if isAurora config then 0 else 1)"
  by (simp add: scope_simps)

theorem database_storage_settings_witness:
  "list_all (\<lambda>cfg. rc_storageType cfg = ''gp3'' \<and> rc_storageEncrypted cfg \<and> rc_skipFinalSnapshot cfg)
     (List.map_filter asRdsCluster (node (new_RdsModule ref_attr cfg_aurora)))
   \<and> length (List.map_filter asRdsCluster (node (new_RdsModule ref_attr cfg_aurora))) = 1
   \<and> list_all (\<lambda>cfg. db_storageType cfg = ''gp3'' \<and> db_storageEncrypted cfg \<and> db_skipFinalSnapshot cfg)
     (List.map_filter asDbInstance (node (new_RdsModule ref_attr cfg_standalone)))
   \<and> length (List.map_filter asDbInstance (node (new_RdsModule ref_attr cfg_standalone))) = 1"
proof -
  have a: "isAurora cfg_aurora" and s: "\<not> isAurora cfg_standalone"
    by (simp_all add: example_simps)
  from database_storage_settings [of ref_attr cfg_aurora]
    database_storage_settings [of ref_attr cfg_standalone] a s
  show ?thesis by simp
qed

subsection \<open>The published outputs\<close>

text \<open>
  C7. The module's \<open>rdsEndpoint\<close>, and the value of the one output in the scope, is the
  \<open>endpoint\<close> attribute of the cluster when \<open>isAurora\<close> is set and of the standalone
  instance otherwise; the module's \<open>username\<close> and \<open>password\<close> are those of the
  configuration.
\<close>

theorem published_outputs:
  "(\<exists>r. filter (\<lambda>r. if isAurora config then isRdsCluster r else isDbInstance r)
            (node (new_RdsModule attr config)) = [r]
       \<and> rdsEndpoint (new_RdsModule attr config) = attr r ''endpoint''
       \<and> map snd (List.map_filter asTerraformOutput (node (new_RdsModule attr config)))
           = [attr r ''endpoint''])
   \<and> module_username (new_RdsModule attr config) = username config
   \<and> module_password (new_RdsModule attr config) = password config"
  by (simp add: scope_simps)

theorem published_outputs_witness:
  "rdsEndpoint (new_RdsModule ref_attr cfg_aurora) = ''rds-cluster.endpoint''
   \<and> rdsEndpoint (new_RdsModule ref_attr cfg_standalone) = ''rds-instance.endpoint''
   \<and> module_username (new_RdsModule ref_attr cfg_aurora) = ''admin''
   \<and> module_password (new_RdsModule ref_attr cfg_aurora) = ''secret''"
proof -
  have a: "isAurora cfg_aurora" and s: "\<not> isAurora cfg_standalone"
    by (simp_all add: example_simps)
  have ca: "map constructId (filter isRdsCluster (node (new_RdsModule ref_attr cfg_aurora)))
              = [''rds-cluster'']"
    by (simp add: scope_simps example_simps)
  have cs: "map constructId (filter isDbInstance (node (new_RdsModule ref_attr cfg_standalone)))
              = [''rds-instance'']"
    by (simp add: scope_simps example_simps)
  from published_outputs [of cfg_aurora ref_attr] a ca
  have "rdsEndpoint (new_RdsModule ref_attr cfg_aurora) = ''rds-cluster.endpoint''"
    and "module_username (new_RdsModule ref_attr cfg_aurora) = ''admin''"
    and "module_password (new_RdsModule ref_attr cfg_aurora) = ''secret''"
    by (auto simp: ref_attr_def cfg_aurora_def)
  moreover from published_outputs [of cfg_standalone ref_attr] s cs
  have "rdsEndpoint (new_RdsModule ref_attr cfg_standalone) = ''rds-instance.endpoint''"
    by (auto simp: ref_attr_def)
  ultimately show ?thesis by simp
qed

subsection \<open>The sizing class of the cluster instances\<close>

text \<open>
  C8 (as amended). With \<open>isAurora\<close> set, every cluster instance has the configured sizing
  class when a non-empty one is supplied, and \<open>db.t4g.medium\<close> when none is supplied or
  the supplied one is the empty string, which \<open>instanceClass || "db.t4g.medium"\<close> takes as
  absent.
\<close>

theorem cluster_instance_class:
  assumes "isAurora config"
  shows "list_all (\<lambda>cfg. rci_instanceClass cfg =
            (case instanceClass config of None \<Rightarrow> ''db.t4g.medium''
             | Some s \<Rightarrow> if s = [] then ''db.t4g.medium'' else s))
          (List.map_filter asRdsClusterInstance (node (new_RdsModule attr config)))"
  using assms
  by (simp add: scope_simps or_string_def list_all_iff split: option.splits)

theorem cluster_instance_class_witness:
  "isAurora cfg_aurora \<and> instanceClass cfg_aurora = Some ''db.r6g.large''
   \<and> list_all (\<lambda>cfg. rci_instanceClass cfg = ''db.r6g.large'')
        (List.map_filter asRdsClusterInstance (node (new_RdsModule ref_attr cfg_aurora)))"
proof -
  have a: "isAurora cfg_aurora" and n: "instanceClass cfg_aurora = Some ''db.r6g.large''"
    by (simp_all add: cfg_aurora_def)
  from cluster_instance_class [OF a, of ref_attr] n a show ?thesis by simp
qed

text \<open>A supplied sizing class that is the empty string is replaced by the default.\<close>

theorem cluster_instance_class_empty_counterexample:
  "isAurora cfg_aurora_emptyclass \<and> instanceClass cfg_aurora_emptyclass = Some ''''
   \<and> map rci_instanceClass
        (List.map_filter asRdsClusterInstance (node (new_RdsModule ref_attr cfg_aurora_emptyclass)))
       = [''db.t4g.medium'']"
  by (simp add: scope_simps clusterInstance_def or_number_def or_string_def example_simps)

subsection \<open>One tag map for every resource\<close>

text \<open>
  C9. Every construct of the scope that carries tags (the security group, the subnet group,
  the cluster, each cluster instance, the standalone instance) carries the same map, the
  merge of the default tags with the caller's tags; at least three constructs carry it.
\<close>

theorem all_resources_same_tags:
  "list_all (\<lambda>t. t = moduleDefaultTags attr config ++ callerTags config)
     (List.map_filter tagsOf (node (new_RdsModule attr config)))
   \<and> 3 \<le> length (List.map_filter tagsOf (node (new_RdsModule attr config)))"
  by (simp add: scope_simps callerTags_def moduleDefaultTags_def list_all_iff)

theorem all_resources_same_tags_witness:
  "list_all (\<lambda>t. t ''Service'' = Some ''ledger'' \<and> t ''Name'' = Some ''billing-dev'')
     (List.map_filter tagsOf (node (new_RdsModule ref_attr cfg_aurora)))
   \<and> 3 \<le> length (List.map_filter tagsOf (node (new_RdsModule ref_attr cfg_aurora)))"
proof -
  let ?L = "List.map_filter tagsOf (node (new_RdsModule ref_attr cfg_aurora))"
  let ?M = "moduleDefaultTags ref_attr cfg_aurora ++ callerTags cfg_aurora"
  have s: "?M ''Service'' = Some ''ledger''" and n: "?M ''Name'' = Some ''billing-dev''"
    by (simp_all add: moduleDefaultTags_def defaultTags_def callerTags_def cfg_aurora_def map_add_def)
  from all_resources_same_tags [of ref_attr cfg_aurora]
  have "(\<forall>t \<in> set ?L. t = ?M) \<and> 3 \<le> length ?L"
    unfolding list_all_iff .
  then have eq: "\<forall>t \<in> set ?L. t = ?M" and len: "3 \<le> length ?L"
    by blast+
  have "\<forall>t \<in> set ?L. t ''Service'' = Some ''ledger'' \<and> t ''Name'' = Some ''billing-dev''"
  proof
    fix t assume "t \<in> set ?L"
    with eq have "t = ?M" by blast
    with s n show "t ''Service'' = Some ''ledger'' \<and> t ''Name'' = Some ''billing-dev''"
      by (simp only: simp_thms)
  qed
  with len show ?thesis by (simp only: list_all_iff simp_thms)
qed

subsection \<open>The cluster instances and their cluster\<close>

text \<open>
  C10. With \<open>isAurora\<close> set, the scope holds one cluster, and every cluster instance has
  the cluster's \<open>id\<close> attribute as its \<open>clusterIdentifier\<close>, the cluster's \<open>engine\<close>
  attribute as its engine, and the subnet group name that the cluster has. The instances
  have equal configurations; they differ in the construct id, which for the \<open>i\<close>-th round
  of the loop is \<open>rds-cluster-instance-\<close> followed by \<open>i\<close>.
\<close>

theorem cluster_instances_reference_cluster:
  assumes "isAurora config"
  shows "\<exists>cl ccfg.
           filter isRdsCluster (node (new_RdsModule attr config)) = [cl]
         \<and> asRdsCluster cl = Some ccfg
         \<and> list_all (\<lambda>cfg. rci_clusterIdentifier cfg = attr cl ''id''
                         \<and> rci_engine cfg = attr cl ''engine''
                         \<and> rci_dbSubnetGroupName cfg = rc_dbSubnetGroupName ccfg)
              (List.map_filter asRdsClusterInstance (node (new_RdsModule attr config)))
         \<and> (\<forall>a \<in> set (List.map_filter asRdsClusterInstance (node (new_RdsModule attr config))).
              \<forall>b \<in> set (List.map_filter asRdsClusterInstance (node (new_RdsModule attr config))). a = b)
         \<and> map constructId (filter isRdsClusterInstance (node (new_RdsModule attr config)))
             = map (\<lambda>i. ''rds-cluster-instance-'' @ number_toString i)
                 [0..or_number (numberOfInstances config) 1 - 1]"
  using assms
  by (simp add: scope_simps list_all_iff constructId_clusterInstance)

theorem cluster_instances_reference_cluster_witness:
  "isAurora cfg_aurora
   \<and> (\<exists>cl ccfg.
           filter isRdsCluster (node (new_RdsModule ref_attr cfg_aurora)) = [cl]
         \<and> asRdsCluster cl = Some ccfg
         \<and> list_all (\<lambda>cfg. rci_clusterIdentifier cfg = ref_attr cl ''id''
                         \<and> rci_engine cfg = ref_attr cl ''engine''
                         \<and> rci_dbSubnetGroupName cfg = rc_dbSubnetGroupName ccfg)
              (List.map_filter asRdsClusterInstance (node (new_RdsModule ref_attr cfg_aurora)))
         \<and> (\<forall>a \<in> set (List.map_filter asRdsClusterInstance (node (new_RdsModule ref_attr cfg_aurora))).
              \<forall>b \<in> set (List.map_filter asRdsClusterInstance (node (new_RdsModule ref_attr cfg_aurora))). a = b)
         \<and> map constructId (filter isRdsClusterInstance (node (new_RdsModule ref_attr cfg_aurora)))
             = [''rds-cluster-instance-0'', ''rds-cluster-instance-1'', ''rds-cluster-instance-2''])"
  (is "_ \<and> ?ex")
proof (rule conjI)
  show a: "isAurora cfg_aurora" by (simp add: cfg_aurora_def)
  have n: "or_number (numberOfInstances cfg_aurora) 1 - 1 = 2"
    by (simp add: cfg_aurora_def or_number_def)
  have u: "[0..2::int] = [0, 1, 2]" by (simp add: upto_rec1)
  have d: "number_toString 0 = ''0''" "number_toString 1 = ''1''" "number_toString 2 = ''2''"
    by code_simp+
  have m: "map (\<lambda>i. ''rds-cluster-instance-'' @ number_toString i)
             [0..or_number (numberOfInstances cfg_aurora) 1 - 1]
           = [''rds-cluster-instance-0'', ''rds-cluster-instance-1'', ''rds-cluster-instance-2'']"
    by (simp add: n u d)
  show ?ex using cluster_instances_reference_cluster [OF a, of ref_attr] unfolding m .
qed

end
